theory Spec2Isabelle
  imports Complex_Main "HOL-Library.Word" "HOL-Library.Multiset"
    "HOL-Library.Char_ord" "HOL-Library.List_Lexorder" "HOL-Library.Product_Lexorder"
begin

section \<open>DevMemory: retrieval, usage accounting and event notification\<close>

text \<open>
  A shallow embedding of the Go packages \<open>store\<close> (the PostgreSQL store), \<open>embedding\<close>
  (the client of the embedding service), \<open>mcp\<close> (the tool handlers with their usage
  recorder) and \<open>web\<close> (the event bus).

  Conventions. A Go \<open>string\<close> is a \<open>string\<close>. A \<open>Vector\<close> (\<open>[]float32\<close>) is a list of
  reals under an option, \<open>None\<close> being the \<open>nil\<close> slice that the code tests with
  \<open>embedding != nil\<close>. Scores are values of the type \<open>float64\<close> defined below, NaN included.
  Go's \<open>int\<close> is 64 bits wide: \<open>tokenEstimate\<close>, which multiplies, works on 64-bit words;
  limits and slice lengths are only compared and are integers. Timestamps are natural
  numbers. JSON columns are kept as their text.
\<close>

subsection \<open>Package embedding: the client of the embedding service\<close>

record Service =
  url :: string
  dim :: int

text \<open>
  What lies outside the program: the JSON encoder, the construction of the request, the
  HTTP exchange (bounded by the client's timeout of 30 seconds) and the JSON decoder. A
  failure of any of them is the value \<open>None\<close> (\<open>False\<close> for the request constructor).
\<close>

record network =
  marshal :: "string \<Rightarrow> string option"
  new_request :: "string \<Rightarrow> string \<Rightarrow> bool"
  client_Do :: "string \<Rightarrow> string \<Rightarrow> (int \<times> string) option"
  decode :: "string \<Rightarrow> real list option option"

type_synonym Vector = "real list option"

definition len :: "'a list option \<Rightarrow> int" where
  "len v = (case v of None \<Rightarrow> 0 | Some xs \<Rightarrow> int (length xs))"

definition Enabled :: "Service \<Rightarrow> bool" where
  "Enabled s = (url s \<noteq> [])"

text \<open>
  \<open>Embed\<close> returns the vector together with the requests it has sent (URL and body), the
  second component being the trace of its network calls.
\<close>

definition Embed :: "network \<Rightarrow> Service \<Rightarrow> string \<Rightarrow> Vector \<times> (string \<times> string) list" where
  "Embed net s text =
     (if \<not> Enabled s \<or> text = [] then (None, [])
      else case marshal net text of
        None \<Rightarrow> (None, [])
      | Some body \<Rightarrow>
          if \<not> new_request net (url s) body then (None, [])
          else case client_Do net (url s) body of
            None \<Rightarrow> (None, [(url s, body)])
          | Some (StatusCode, respBody) \<Rightarrow>
              if StatusCode \<noteq> 200 then (None, [(url s, body)])
              else case decode net respBody of
                None \<Rightarrow> (None, [(url s, body)])
              | Some embedding \<Rightarrow>
                  if len embedding \<noteq> dim s then (None, [(url s, body)])
                  else (embedding, [(url s, body)]))"

subsection \<open>Package web: the event bus\<close>

text \<open>
  A channel is known by its identity, a natural number; \<open>inbox\<close> holds the messages
  buffered in each channel, oldest first, and \<open>made\<close> counts the channels made so far.
  \<open>clients\<close> is the registry \<open>map[chan string]struct{}\<close>, a set of channels. Every
  channel is made with room for 16 messages. No function of the repository closes a
  channel, so the bus holds open channels only.
\<close>

record EventBus =
  clients :: "nat set"
  inbox :: "nat \<Rightarrow> string list"
  made :: nat

definition NewEventBus :: EventBus where
  "NewEventBus = \<lparr>clients = {}, inbox = (\<lambda>_. []), made = 0\<rparr>"

definition Subscribe :: "EventBus \<Rightarrow> nat \<times> EventBus" where
  "Subscribe eb =
     (let ch = made eb
      in (ch, eb\<lparr>clients := insert ch (clients eb), inbox := (inbox eb)(ch := []), made := Suc ch\<rparr>))"

text \<open>The \<open>select\<close> with a \<open>default\<close> branch: the send happens only when the buffer has room.\<close>

definition try_send :: "string \<Rightarrow> string list \<Rightarrow> string list" where
  "try_send event buf = (if length buf < 16 then buf @ [event] else buf)"

text \<open>
  The loop of \<open>Publish\<close> ranges over the registry in an unspecified order; each iteration
  touches the buffer of its own channel only, so the loop is the pointwise update.
\<close>

definition Publish :: "string \<Rightarrow> EventBus \<Rightarrow> EventBus" where
  "Publish event eb =
     eb\<lparr>inbox := (\<lambda>ch. if ch \<in> clients eb then try_send event (inbox eb ch) else inbox eb ch)\<rparr>"

text \<open>
  The function returned by \<open>Subscribe\<close>: it deletes the channel from the registry and then
  runs \<open>for range ch { }\<close>. That loop receives until the channel is closed and empty:
  with a message buffered it takes the message and goes on; with none buffered it ends on a
  closed channel, and on an open one the receive waits. The channel has left the registry,
  so nothing sends to it any more, and the wait has no end: the loop is at the same point
  again. Not returning is the value \<open>None\<close>. \<open>Subscribe\<close> makes the channel open and
  no function of the repository closes it, so \<open>unsub\<close> runs the loop on an open channel.
\<close>

definition unregister :: "nat \<Rightarrow> EventBus \<Rightarrow> EventBus" where
  "unregister ch eb = eb\<lparr>clients := clients eb - {ch}\<rparr>"

partial_function (option) drain :: "bool \<Rightarrow> string list \<Rightarrow> string list option" where
  "drain is_closed buf =
     (case buf of
        msg # rest \<Rightarrow> drain is_closed rest
      | [] \<Rightarrow> if is_closed then Some [] else drain is_closed [])"

definition unsub :: "nat \<Rightarrow> EventBus \<Rightarrow> EventBus option" where
  "unsub ch eb =
     (let eb1 = unregister ch eb
      in case drain False (inbox eb1 ch) of
           None \<Rightarrow> None
         | Some buf \<Rightarrow> Some (eb1\<lparr>inbox := (inbox eb1)(ch := buf)\<rparr>))"

subsection \<open>Scores: the type float64\<close>

text \<open>
  A \<open>float64\<close> is NaN, an infinity or a finite value; finite values are taken as reals,
  so rounding is left out. \<open>float64_gt\<close> and \<open>float64_ge\<close> are Go's \<open>>\<close> and
  \<open>>=\<close>: false whenever an operand is NaN. \<open>pg_key\<close> gives the place of a value in
  the ascending order of PostgreSQL, where NaN comes after every other value, and
  \<open>pg_key_desc\<close> its place in the descending order. \<open>one_minus\<close> is \<open>1 - d\<close>.
\<close>

datatype float64 = NaN | NegInf | Num real | PosInf

fun pg_key :: "float64 \<Rightarrow> nat \<times> real" where
  "pg_key NegInf = (0, 0)"
| "pg_key (Num r) = (1, r)"
| "pg_key PosInf = (2, 0)"
| "pg_key NaN = (3, 0)"

definition pg_key_desc :: "float64 \<Rightarrow> nat \<times> real" where
  "pg_key_desc x = (3 - fst (pg_key x), - snd (pg_key x))"

definition float64_gt :: "float64 \<Rightarrow> float64 \<Rightarrow> bool" where
  "float64_gt a b = (a \<noteq> NaN \<and> b \<noteq> NaN \<and> pg_key b < pg_key a)"


fun one_minus :: "float64 \<Rightarrow> float64" where
  "one_minus NaN = NaN"
| "one_minus NegInf = PosInf"
| "one_minus (Num r) = Num (1 - r)"
| "one_minus PosInf = NegInf"

subsection \<open>Package store: structs, tables and the database engine\<close>

record Project =
  p_ID :: string
  p_Name :: string
  p_RootPath :: string
  p_Metadata :: string
  p_CreatedAt :: nat
  p_UpdatedAt :: nat

record Memory =
  m_ID :: int
  m_ProjectID :: string
  m_Topic :: string
  m_Key :: string
  m_Value :: string
  m_CreatedAt :: nat
  m_UpdatedAt :: nat
  m_CreatedBy :: string
  m_Score :: float64

record Session =
  s_ID :: int
  s_ProjectID :: string
  s_SessionNum :: int
  s_Title :: string
  s_Summary :: string
  s_Content :: string
  s_Metadata :: string
  s_CreatedAt :: nat
  s_Score :: float64

record FileEntry =
  f_ID :: int
  f_ProjectID :: string
  f_FilePath :: string
  f_FileType :: string
  f_Symbols :: string
  f_Summary :: string
  f_LastIndexed :: nat
  f_Score :: float64

record UsageStat =
  u_ID :: int
  u_ProjectID :: string
  u_ToolName :: string
  u_QueryText :: string
  u_ResultsCount :: "64 word"
  u_TokensEstimated :: "64 word"
  u_CreatedAt :: nat

record SearchAllResult =
  Memories :: "Memory list"
  Sessions :: "Session list"
  Files :: "FileEntry list"

text \<open>
  The rows of the tables \<open>memories\<close>, \<open>sessions\<close> and \<open>file_index\<close> of the migrations:
  the columns of the struct and the column \<open>embedding\<close>, where \<open>None\<close> is \<open>NULL\<close>. The
  tables \<open>projects\<close> and \<open>usage_stats\<close> have the columns of their structs.
\<close>

record memory_row =
  mr_id :: int
  mr_project_id :: string
  mr_topic :: string
  mr_key :: string
  mr_value :: string
  mr_embedding :: Vector
  mr_created_at :: nat
  mr_updated_at :: nat
  mr_created_by :: string

record session_row =
  sr_id :: int
  sr_project_id :: string
  sr_session_num :: int
  sr_title :: string
  sr_summary :: string
  sr_content :: string
  sr_embedding :: Vector
  sr_metadata :: string
  sr_created_at :: nat

record file_row =
  fr_id :: int
  fr_project_id :: string
  fr_file_path :: string
  fr_file_type :: string
  fr_symbols :: string
  fr_summary :: string
  fr_embedding :: Vector
  fr_last_indexed :: nat

text \<open>
  The database: the five tables, rows in insertion order, and the sequences behind the
  \<open>BIGSERIAL\<close> keys.
\<close>

record database =
  projects :: "Project list"
  memories :: "memory_row list"
  sessions :: "session_row list"
  file_index :: "file_row list"
  usage_stats :: "UsageStat list"
  memories_seq :: int
  sessions_seq :: int
  file_index_seq :: int
  usage_stats_seq :: int

text \<open>
  The statements the store sends, each with its arguments. The vector argument stands for
  the literal that \<open>vectorToString\<close> writes and the engine reads back.
\<close>

datatype content_table = memories_table | sessions_table | file_index_table

datatype sql =
    SelectProject string
  | SelectProjects
  | UpsertMemory string string string string Vector string
  | SelectMemory string string string
  | DeleteMemoryWhere string string string
  | UpsertSession string int string string string Vector string
  | SelectSession string int
  | UpsertFile string string string string string Vector
  | SearchSimilar content_table string "real list" int
  | SearchKeyword content_table string string int
  | InsertUsage string string string "64 word" "64 word"

datatype error = ErrNoRows | PgError string

text \<open>
  What the program takes from the engine: the cosine distance \<open><=>\<close> of pgvector (NaN
  when a vector is zero), the
  full-text rank and match of a document against a query, the clock, and \<open>rejects\<close>, which
  says for a statement whether the engine or the driver fails on it (a lost connection, a
  vector literal of the wrong dimension, a value out of range) and with which message.
\<close>

record engine =
  cosine_distance :: "real list \<Rightarrow> real list \<Rightarrow> float64"
  ts_rank :: "string \<Rightarrow> string \<Rightarrow> float64"
  ts_match :: "string \<Rightarrow> string \<Rightarrow> bool"
  rejects :: "sql \<Rightarrow> string option"
  now :: nat

text \<open>
  The store holds the connection pool: the database behind it and, as a trace, the
  statements sent so far.
\<close>

record PostgresStore =
  db :: database
  issued :: "sql list"

definition pool_send :: "engine \<Rightarrow> sql \<Rightarrow> PostgresStore \<Rightarrow> string option \<times> PostgresStore" where
  "pool_send e q s = (rejects e q, s\<lparr>issued := issued s @ [q]\<rparr>)"

text \<open>
  The two ranked selections. Similarity: the rows of the project whose embedding is not
  \<open>NULL\<close>, by ascending distance, \<open>LIMIT\<close> rows, scored \<open>1 - distance\<close>. Keyword: the rows
  of the project whose document matches the query, by descending rank, \<open>LIMIT\<close> rows,
  scored by the rank. Rows of equal distance or rank keep their table order.
\<close>

definition rank_similar ::
  "engine \<Rightarrow> ('r \<Rightarrow> string) \<Rightarrow> ('r \<Rightarrow> Vector) \<Rightarrow> string \<Rightarrow> real list \<Rightarrow> int \<Rightarrow> 'r list \<Rightarrow> ('r \<times> float64) list" where
  "rank_similar e project_id embedding projectID v limit rows =
     map (\<lambda>(r, d). (r, one_minus d))
       (take (nat limit)
         (sort_key (\<lambda>(r, d). pg_key d)
           (List.map_filter
             (\<lambda>r. if project_id r = projectID
                  then map_option (\<lambda>x. (r, cosine_distance e x v)) (embedding r)
                  else None)
             rows)))"

definition rank_keyword ::
  "engine \<Rightarrow> ('r \<Rightarrow> string) \<Rightarrow> ('r \<Rightarrow> string) \<Rightarrow> string \<Rightarrow> string \<Rightarrow> int \<Rightarrow> 'r list \<Rightarrow> ('r \<times> float64) list" where
  "rank_keyword e project_id document projectID query limit rows =
     take (nat limit)
       (sort_key (\<lambda>(r, score). pg_key_desc score)
         (map (\<lambda>r. (r, ts_rank e (document r) query))
           (filter (\<lambda>r. project_id r = projectID \<and> ts_match e (document r) query) rows)))"

subsection \<open>Package store: projects\<close>

text \<open>\<open>ORDER BY name\<close> is the order of the names as byte strings.\<close>

definition ListProjects :: "engine \<Rightarrow> PostgresStore \<Rightarrow> (Project list \<times> error option) \<times> PostgresStore" where
  "ListProjects e s =
     (let (rej, s1) = pool_send e SelectProjects s
      in case rej of
           Some msg \<Rightarrow> (([], Some (PgError msg)), s1)
         | None \<Rightarrow> ((sort_key p_Name (projects (db s1)), None), s1))"

definition GetProject :: "engine \<Rightarrow> string \<Rightarrow> PostgresStore \<Rightarrow> (Project option \<times> error option) \<times> PostgresStore" where
  "GetProject e projectID s =
     (let (rej, s1) = pool_send e (SelectProject projectID) s
      in case rej of
           Some msg \<Rightarrow> ((None, Some (PgError msg)), s1)
         | None \<Rightarrow>
             (case find (\<lambda>p. p_ID p = projectID) (projects (db s1)) of
                None \<Rightarrow> ((None, None), s1)
              | Some p \<Rightarrow> ((Some p, None), s1)))"

subsection \<open>Package store: memories\<close>

definition scan_memory :: "memory_row \<Rightarrow> float64 \<Rightarrow> Memory" where
  "scan_memory r score =
     \<lparr>m_ID = mr_id r, m_ProjectID = mr_project_id r, m_Topic = mr_topic r, m_Key = mr_key r,
      m_Value = mr_value r, m_CreatedAt = mr_created_at r, m_UpdatedAt = mr_updated_at r,
      m_CreatedBy = mr_created_by r, m_Score = score\<rparr>"

definition zero_Memory :: Memory where
  "zero_Memory =
     \<lparr>m_ID = 0, m_ProjectID = [], m_Topic = [], m_Key = [], m_Value = [], m_CreatedAt = 0,
      m_UpdatedAt = 0, m_CreatedBy = [], m_Score = Num 0\<rparr>"

definition memory_key :: "string \<Rightarrow> string \<Rightarrow> string \<Rightarrow> memory_row \<Rightarrow> bool" where
  "memory_key projectID topic key r =
     (mr_project_id r = projectID \<and> mr_topic r = topic \<and> mr_key r = key)"



definition GetMemory ::
  "engine \<Rightarrow> string \<Rightarrow> string \<Rightarrow> string \<Rightarrow> PostgresStore \<Rightarrow> (Memory option \<times> error option) \<times> PostgresStore" where
  "GetMemory e projectID topic key s =
     (let (rej, s1) = pool_send e (SelectMemory projectID topic key) s
      in case rej of
           Some msg \<Rightarrow> ((Some zero_Memory, Some (PgError msg)), s1)
         | None \<Rightarrow>
             (case find (memory_key projectID topic key) (memories (db s1)) of
                None \<Rightarrow> ((None, None), s1)
              | Some r \<Rightarrow> ((Some (scan_memory r (Num 0)), None), s1)))"

definition DeleteMemory ::
  "engine \<Rightarrow> string \<Rightarrow> string \<Rightarrow> string \<Rightarrow> PostgresStore \<Rightarrow> error option \<times> PostgresStore" where
  "DeleteMemory e projectID topic key s =
     (let (rej, s1) = pool_send e (DeleteMemoryWhere projectID topic key) s
      in case rej of
           Some msg \<Rightarrow> (Some (PgError msg), s1)
         | None \<Rightarrow>
             (None, s1\<lparr>db := (db s1)\<lparr>memories :=
                       filter (\<lambda>r. \<not> memory_key projectID topic key r) (memories (db s1))\<rparr>\<rparr>))"

text \<open>The rows a search statement selects from \<open>memories\<close>, with their scores.\<close>

fun select_memories :: "engine \<Rightarrow> database \<Rightarrow> sql \<Rightarrow> (memory_row \<times> float64) list" where
  "select_memories e d (SearchSimilar t projectID v limit) =
     rank_similar e mr_project_id mr_embedding projectID v limit (memories d)"
| "select_memories e d (SearchKeyword t projectID query limit) =
     rank_keyword e mr_project_id mr_value projectID query limit (memories d)"
| "select_memories e d _ = []"

definition SearchMemories ::
  "engine \<Rightarrow> string \<Rightarrow> string \<Rightarrow> Vector \<Rightarrow> int \<Rightarrow> PostgresStore \<Rightarrow> (Memory list \<times> error option) \<times> PostgresStore" where
  "SearchMemories e projectID query embedding limit0 s =
     (let limit = (if limit0 \<le> 0 then 10 else limit0);
          sqlQuery = (case embedding of
                        Some v \<Rightarrow> SearchSimilar memories_table projectID v limit
                      | None \<Rightarrow> SearchKeyword memories_table projectID query limit);
          (rej, s1) = pool_send e sqlQuery s
      in case rej of
           Some msg \<Rightarrow> (([], Some (PgError msg)), s1)
         | None \<Rightarrow> ((map (\<lambda>(r, score). scan_memory r score) (select_memories e (db s1) sqlQuery), None), s1))"

subsection \<open>Package store: sessions\<close>

definition scan_session :: "session_row \<Rightarrow> string \<Rightarrow> float64 \<Rightarrow> Session" where
  "scan_session r content score =
     \<lparr>s_ID = sr_id r, s_ProjectID = sr_project_id r, s_SessionNum = sr_session_num r,
      s_Title = sr_title r, s_Summary = sr_summary r, s_Content = content,
      s_Metadata = sr_metadata r, s_CreatedAt = sr_created_at r, s_Score = score\<rparr>"

definition session_key :: "string \<Rightarrow> int \<Rightarrow> session_row \<Rightarrow> bool" where
  "session_key projectID sessionNum r = (sr_project_id r = projectID \<and> sr_session_num r = sessionNum)"

definition session_document :: "session_row \<Rightarrow> string" where
  "session_document r = sr_title r @ '' '' @ sr_summary r @ '' '' @ sr_content r"



definition GetSession ::
  "engine \<Rightarrow> string \<Rightarrow> int \<Rightarrow> PostgresStore \<Rightarrow> (Session option \<times> error option) \<times> PostgresStore" where
  "GetSession e projectID sessionNum s =
     (let (rej, s1) = pool_send e (SelectSession projectID sessionNum) s
      in case rej of
           Some msg \<Rightarrow> ((None, Some (PgError msg)), s1)
         | None \<Rightarrow>
             (case find (session_key projectID sessionNum) (sessions (db s1)) of
                None \<Rightarrow> ((None, None), s1)
              | Some r \<Rightarrow> ((Some (scan_session r (sr_content r) (Num 0)), None), s1)))"

fun select_sessions :: "engine \<Rightarrow> database \<Rightarrow> sql \<Rightarrow> (session_row \<times> float64) list" where
  "select_sessions e d (SearchSimilar t projectID v limit) =
     rank_similar e sr_project_id sr_embedding projectID v limit (sessions d)"
| "select_sessions e d (SearchKeyword t projectID query limit) =
     rank_keyword e sr_project_id session_document projectID query limit (sessions d)"
| "select_sessions e d _ = []"

definition SearchSessions ::
  "engine \<Rightarrow> string \<Rightarrow> string \<Rightarrow> Vector \<Rightarrow> int \<Rightarrow> PostgresStore \<Rightarrow> (Session list \<times> error option) \<times> PostgresStore" where
  "SearchSessions e projectID query embedding limit0 s =
     (let limit = (if limit0 \<le> 0 then 10 else limit0);
          sqlQuery = (case embedding of
                        Some v \<Rightarrow> SearchSimilar sessions_table projectID v limit
                      | None \<Rightarrow> SearchKeyword sessions_table projectID query limit);
          (rej, s1) = pool_send e sqlQuery s
      in case rej of
           Some msg \<Rightarrow> (([], Some (PgError msg)), s1)
         | None \<Rightarrow> ((map (\<lambda>(r, score). scan_session r [] score) (select_sessions e (db s1) sqlQuery), None), s1))"

subsection \<open>Package store: the file index\<close>

definition scan_file :: "file_row \<Rightarrow> float64 \<Rightarrow> FileEntry" where
  "scan_file r score =
     \<lparr>f_ID = fr_id r, f_ProjectID = fr_project_id r, f_FilePath = fr_file_path r,
      f_FileType = fr_file_type r, f_Symbols = fr_symbols r, f_Summary = fr_summary r,
      f_LastIndexed = fr_last_indexed r, f_Score = score\<rparr>"




fun select_files :: "engine \<Rightarrow> database \<Rightarrow> sql \<Rightarrow> (file_row \<times> float64) list" where
  "select_files e d (SearchSimilar t projectID v limit) =
     rank_similar e fr_project_id fr_embedding projectID v limit (file_index d)"
| "select_files e d (SearchKeyword t projectID query limit) =
     rank_keyword e fr_project_id fr_summary projectID query limit (file_index d)"
| "select_files e d _ = []"

definition SearchFiles ::
  "engine \<Rightarrow> string \<Rightarrow> string \<Rightarrow> Vector \<Rightarrow> int \<Rightarrow> PostgresStore \<Rightarrow> (FileEntry list \<times> error option) \<times> PostgresStore" where
  "SearchFiles e projectID query embedding limit0 s =
     (let limit = (if limit0 \<le> 0 then 10 else limit0);
          sqlQuery = (case embedding of
                        Some v \<Rightarrow> SearchSimilar file_index_table projectID v limit
                      | None \<Rightarrow> SearchKeyword file_index_table projectID query limit);
          (rej, s1) = pool_send e sqlQuery s
      in case rej of
           Some msg \<Rightarrow> (([], Some (PgError msg)), s1)
         | None \<Rightarrow> ((map (\<lambda>(r, score). scan_file r score) (select_files e (db s1) sqlQuery), None), s1))"

subsection \<open>Package store: usage records\<close>

text \<open>
  \<open>INSERT INTO usage_stats\<close>: the row gets its key from the sequence and its time from the
  clock. The column \<open>project_id\<close> references \<open>projects(id)\<close>, and the Go string sent for it
  is never \<open>NULL\<close>, so the project has to exist.
\<close>

definition RecordUsage :: "engine \<Rightarrow> UsageStat \<Rightarrow> PostgresStore \<Rightarrow> error option \<times> PostgresStore" where
  "RecordUsage e u s =
     (let (rej, s1) = pool_send e
            (InsertUsage (u_ProjectID u) (u_ToolName u) (u_QueryText u) (u_ResultsCount u) (u_TokensEstimated u)) s
      in case rej of
           Some msg \<Rightarrow> (Some (PgError msg), s1)
         | None \<Rightarrow>
             (let d = db s1; id = usage_stats_seq d + 1; d1 = d\<lparr>usage_stats_seq := id\<rparr>
              in if u_ProjectID u \<notin> set (map p_ID (projects d))
                 then (Some (PgError ''violates foreign key constraint''), s1\<lparr>db := d1\<rparr>)
                 else (None, s1\<lparr>db := d1\<lparr>usage_stats := usage_stats d @
                         [u\<lparr>u_ID := id, u_CreatedAt := now e\<rparr>]\<rparr>\<rparr>)))"

subsection \<open>Package store: the search across projects\<close>

text \<open>
  The loop over the projects: three searches per project, each result appended to its list
  only when the search returned no error.
\<close>

fun SearchAll_loop ::
  "engine \<Rightarrow> string \<Rightarrow> Vector \<Rightarrow> int \<Rightarrow> Project list \<Rightarrow> SearchAllResult \<Rightarrow> PostgresStore
     \<Rightarrow> SearchAllResult \<times> PostgresStore" where
  "SearchAll_loop e query embedding limit [] result s = (result, s)"
| "SearchAll_loop e query embedding limit (p # ps) result s =
     (let ((memories, err1), s1) = SearchMemories e (p_ID p) query embedding limit s;
          result1 = (if err1 = None then result\<lparr>Memories := Memories result @ memories\<rparr> else result);
          ((sessions, err2), s2) = SearchSessions e (p_ID p) query embedding limit s1;
          result2 = (if err2 = None then result1\<lparr>Sessions := Sessions result1 @ sessions\<rparr> else result1);
          ((files, err3), s3) = SearchFiles e (p_ID p) query embedding limit s2;
          result3 = (if err3 = None then result2\<lparr>Files := Files result2 @ files\<rparr> else result2)
      in SearchAll_loop e query embedding limit ps result3 s3)"

text \<open>
  The sort written three times in \<open>SearchAll\<close>, once per slice: for every \<open>i\<close>, for every
  \<open>j > i\<close>, the elements at \<open>i\<close> and \<open>j\<close> are exchanged when the one at \<open>j\<close> has the greater
  score by Go's comparison of \<open>float64\<close>. \<open>sort_inner\<close> is the loop over \<open>j\<close>, \<open>sort_outer\<close> the loop over \<open>i\<close>.
\<close>

function sort_inner :: "('a \<Rightarrow> float64) \<Rightarrow> nat \<Rightarrow> nat \<Rightarrow> 'a list \<Rightarrow> 'a list" where
  "sort_inner Score i j xs =
     (if j < length xs
      then sort_inner Score i (j + 1)
             (if float64_gt (Score (xs ! j)) (Score (xs ! i)) then xs[i := xs ! j, j := xs ! i] else xs)
      else xs)"
  by pat_completeness auto
termination
  by (relation "measure (\<lambda>(Score, i, j, xs). length xs - j)") auto

declare sort_inner.simps [simp del]

lemma length_sort_inner: "length (sort_inner Score i j xs) = length xs"
proof (induction Score i j xs rule: sort_inner.induct)
  case (1 Score i j xs)
  then show ?case
    by (subst sort_inner.simps) (simp split: if_splits)
qed

function sort_outer :: "('a \<Rightarrow> float64) \<Rightarrow> nat \<Rightarrow> 'a list \<Rightarrow> 'a list" where
  "sort_outer Score i xs =
     (if i < length xs then sort_outer Score (i + 1) (sort_inner Score i (i + 1) xs) else xs)"
  by pat_completeness auto
termination
  by (relation "measure (\<lambda>(Score, i, xs). length xs - i)") (auto simp: length_sort_inner)

declare sort_outer.simps [simp del]

definition sortAndCap :: "int \<Rightarrow> int \<Rightarrow> int" where
  "sortAndCap limit n = (if n > limit then limit else n)"

definition sort_and_cap :: "('a \<Rightarrow> float64) \<Rightarrow> int \<Rightarrow> 'a list \<Rightarrow> 'a list" where
  "sort_and_cap Score limit xs =
     (let ys = sort_outer Score 0 xs in take (nat (sortAndCap limit (int (length ys)))) ys)"

definition SearchAll ::
  "engine \<Rightarrow> string \<Rightarrow> Vector \<Rightarrow> int \<Rightarrow> PostgresStore \<Rightarrow> (SearchAllResult \<times> error option) \<times> PostgresStore" where
  "SearchAll e query embedding limit0 s =
     (let limit = (if limit0 \<le> 0 then 10 else limit0);
          result = \<lparr>Memories = [], Sessions = [], Files = []\<rparr>;
          ((projects, err), s1) = ListProjects e s
      in case err of
           Some er \<Rightarrow> ((result, Some er), s1)
         | None \<Rightarrow>
             (let (result1, s2) = SearchAll_loop e query embedding limit projects result s1
              in ((\<lparr>Memories = sort_and_cap m_Score limit (Memories result1),
                     Sessions = sort_and_cap s_Score limit (Sessions result1),
                     Files = sort_and_cap f_Score limit (Files result1)\<rparr>, None), s2)))"

subsection \<open>Specification of the search across projects\<close>

text \<open>
  What one project contributes to each list, in the words of the specification: the
  result of its search when the search returned no error, and nothing otherwise.
\<close>

definition memories_found :: "engine \<Rightarrow> string \<Rightarrow> Vector \<Rightarrow> int \<Rightarrow> PostgresStore \<Rightarrow> Project \<Rightarrow> Memory list" where
  "memories_found e query embedding limit s p =
     (case fst (SearchMemories e (p_ID p) query embedding limit s) of
        (found, err) \<Rightarrow> if err = None then found else [])"

definition sessions_found :: "engine \<Rightarrow> string \<Rightarrow> Vector \<Rightarrow> int \<Rightarrow> PostgresStore \<Rightarrow> Project \<Rightarrow> Session list" where
  "sessions_found e query embedding limit s p =
     (case fst (SearchSessions e (p_ID p) query embedding limit s) of
        (found, err) \<Rightarrow> if err = None then found else [])"

definition files_found :: "engine \<Rightarrow> string \<Rightarrow> Vector \<Rightarrow> int \<Rightarrow> PostgresStore \<Rightarrow> Project \<Rightarrow> FileEntry list" where
  "files_found e query embedding limit s p =
     (case fst (SearchFiles e (p_ID p) query embedding limit s) of
        (found, err) \<Rightarrow> if err = None then found else [])"


subsection \<open>Package mcp: the usage recorder and the tool handlers\<close>

definition tokenEstimate :: "string \<Rightarrow> 64 word \<Rightarrow> 64 word" where
  "tokenEstimate toolName resultsCount =
     (if toolName = ''memory_search'' then resultsCount * 500
      else if toolName = ''session_search'' then resultsCount * 2000
      else if toolName = ''file_search'' then resultsCount * 800
      else 100)"

text \<open>
  The server: its store, its embedding service and the optional event publisher (\<open>None\<close>
  outside the web transport).
\<close>

record Server =
  store :: PostgresStore
  embedding_service :: Service
  events :: "EventBus option"

datatype CallToolResult = NewToolResultText string | NewToolResultError string

fun Error :: "error \<Rightarrow> string" where
  "Error ErrNoRows = ''no rows in result set''"
| "Error (PgError msg) = msg"

text \<open>
  \<open>recordUsage\<close>: the insert may fail, which is logged and nothing more; the event is
  published whenever a publisher is set.
\<close>

definition recordUsage :: "engine \<Rightarrow> string \<Rightarrow> string \<Rightarrow> string \<Rightarrow> 64 word \<Rightarrow> Server \<Rightarrow> Server" where
  "recordUsage e toolName projectID query resultsCount srv =
     (let tokens = tokenEstimate toolName resultsCount;
          (err, st) = RecordUsage e
             \<lparr>u_ID = 0, u_ProjectID = projectID, u_ToolName = toolName, u_QueryText = query,
              u_ResultsCount = resultsCount, u_TokensEstimated = tokens, u_CreatedAt = 0\<rparr>
             (store srv)
      in srv\<lparr>store := st, events := map_option (Publish ''dashboard-stats'') (events srv)\<rparr>)"

text \<open>
  The arguments of a tool call, each already rendered as text; a missing argument reads as
  the empty string.
\<close>

definition stringArg :: "(string \<rightharpoonup> string) \<Rightarrow> string \<Rightarrow> string" where
  "stringArg req name = (case req name of None \<Rightarrow> [] | Some v \<Rightarrow> v)"

text \<open>\<open>MarshalIndent\<close> is the JSON encoder applied to the memory found.\<close>

definition handleMemoryGet ::
  "engine \<Rightarrow> (Memory \<Rightarrow> string) \<Rightarrow> (string \<rightharpoonup> string) \<Rightarrow> Server \<Rightarrow> CallToolResult \<times> Server" where
  "handleMemoryGet e MarshalIndent req srv =
     (let projectID = stringArg req ''project_id'';
          topic = stringArg req ''topic'';
          key = stringArg req ''key'';
          ((m, err), st) = GetMemory e projectID topic key (store srv);
          srv1 = srv\<lparr>store := st\<rparr>
      in case err of
           Some er \<Rightarrow> (NewToolResultError (''get memory: '' @ Error er), srv1)
         | None \<Rightarrow>
             (case m of
                None \<Rightarrow> (NewToolResultText ''not found'', srv1)
              | Some mem \<Rightarrow>
                  (let srv2 = recordUsage e ''memory_get'' projectID (topic @ ''/'' @ key) 1 srv1
                   in (NewToolResultText (MarshalIndent mem), srv2))))"

definition handleMemoryDelete ::
  "engine \<Rightarrow> (string \<rightharpoonup> string) \<Rightarrow> Server \<Rightarrow> CallToolResult \<times> Server" where
  "handleMemoryDelete e req srv =
     (let projectID = stringArg req ''project_id'';
          topic = stringArg req ''topic'';
          key = stringArg req ''key'';
          (err, st) = DeleteMemory e projectID topic key (store srv);
          srv1 = srv\<lparr>store := st\<rparr>
      in case err of
           Some er \<Rightarrow> (NewToolResultError (''delete memory: '' @ Error er), srv1)
         | None \<Rightarrow>
             (let srv2 = recordUsage e ''memory_delete'' projectID (topic @ ''/'' @ key) 0 srv1
              in (NewToolResultText (''Deleted: '' @ topic @ ''/'' @ key), srv2)))"

text \<open>\<open>project_list\<close> has no project argument and records its usage under the project \<open>""\<close>.\<close>

definition handleProjectList ::
  "engine \<Rightarrow> (Project list \<Rightarrow> string) \<Rightarrow> (string \<rightharpoonup> string) \<Rightarrow> Server \<Rightarrow> CallToolResult \<times> Server" where
  "handleProjectList e MarshalIndent req srv =
     (let ((projects, err), st) = ListProjects e (store srv);
          srv1 = srv\<lparr>store := st\<rparr>
      in case err of
           Some er \<Rightarrow> (NewToolResultError (''list projects: '' @ Error er), srv1)
         | None \<Rightarrow>
             (let srv2 = recordUsage e ''project_list'' [] [] (word_of_nat (length projects)) srv1
              in (NewToolResultText (MarshalIndent projects), srv2)))"

subsection \<open>Example environments\<close>

text \<open>
  A network in which the text \<open>unencodable\<close> cannot be marshalled, the URL \<open>::\<close> is
  refused, the service is down for the text \<open>down\<close>, answers 503 for \<open>busy\<close>, answers
  with a body that does not decode for \<open>garbled\<close>, with a vector of one component for
  \<open>short\<close>, and with a vector of two components otherwise.
\<close>

definition net0 :: network where
  "net0 = \<lparr>marshal = (\<lambda>t. if t = ''unencodable'' then None else Some t),
           new_request = (\<lambda>u b. u \<noteq> ''::''),
           client_Do = (\<lambda>u b. if b = ''down'' then None
                              else if b = ''busy'' then Some (503, ''retry later'')
                              else Some (200, b)),
           decode = (\<lambda>b. if b = ''garbled'' then None
                          else if b = ''short'' then Some (Some [1])
                          else Some (Some [1, 0]))\<rparr>"

text \<open>A bus with two subscribers: the inbox of channel 0 is full, that of channel 1 is empty.\<close>

definition bus0 :: EventBus where
  "bus0 = \<lparr>clients = {0, 1}, inbox = (\<lambda>ch. if ch = 0 then replicate 16 ''dashboard-stats'' else []), made = 2\<rparr>"

text \<open>
  An engine that accepts every statement: the distance of two vectors is 0 when they are
  equal and 1 otherwise, a document matches a query that it starts with, and its rank is the
  number of characters that follow the query. \<open>engine1\<close> is the same engine, except that
  it fails on the keyword search in the memories of project \<open>t1\<close>, and \<open>engine2\<close> fails
  on every insert of a usage record.
\<close>

definition engine0 :: engine where
  "engine0 = \<lparr>cosine_distance = (\<lambda>a b. if a = b then Num 0 else Num 1),
              ts_rank = (\<lambda>doc q. Num (real (length doc - length q))),
              ts_match = (\<lambda>doc q. take (length q) doc = q),
              rejects = (\<lambda>q. None),
              now = 7\<rparr>"

definition engine1 :: engine where
  "engine1 = engine0\<lparr>rejects :=
     (\<lambda>q. if q = SearchKeyword memories_table ''t1'' ''auth'' 2 then Some ''connection reset'' else None)\<rparr>"

text \<open>
  A database with two projects: \<open>t1\<close> has two memories (one without embedding) and a
  session, \<open>t2\<close> has a memory and an indexed file.
\<close>

definition database0 :: database where
  "database0 =
     \<lparr>projects =
        [\<lparr>p_ID = ''t1'', p_Name = ''alpha'', p_RootPath = [], p_Metadata = ''{}'', p_CreatedAt = 1, p_UpdatedAt = 1\<rparr>,
         \<lparr>p_ID = ''t2'', p_Name = ''beta'', p_RootPath = [], p_Metadata = ''{}'', p_CreatedAt = 2, p_UpdatedAt = 2\<rparr>],
      memories =
        [\<lparr>mr_id = 1, mr_project_id = ''t1'', mr_topic = ''arch'', mr_key = ''db'',
          mr_value = ''auth data in pgvector'', mr_embedding = Some [1, 0], mr_created_at = 3,
          mr_updated_at = 3, mr_created_by = []\<rparr>,
         \<lparr>mr_id = 2, mr_project_id = ''t1'', mr_topic = ''arch'', mr_key = ''api'',
          mr_value = ''auth by token'', mr_embedding = None, mr_created_at = 4,
          mr_updated_at = 4, mr_created_by = []\<rparr>,
         \<lparr>mr_id = 3, mr_project_id = ''t2'', mr_topic = ''lesson'', mr_key = ''login'',
          mr_value = ''auth lessons learned so far'', mr_embedding = Some [0, 1], mr_created_at = 5,
          mr_updated_at = 5, mr_created_by = []\<rparr>],
      sessions =
        [\<lparr>sr_id = 1, sr_project_id = ''t1'', sr_session_num = 1, sr_title = ''auth'',
          sr_summary = ''tokens'', sr_content = ''transcript'', sr_embedding = Some [1, 0],
          sr_metadata = ''null'', sr_created_at = 5\<rparr>],
      file_index =
        [\<lparr>fr_id = 1, fr_project_id = ''t2'', fr_file_path = ''main.go'', fr_file_type = ''go'',
          fr_symbols = ''[]'', fr_summary = ''auth entry point'', fr_embedding = Some [0, 1],
          fr_last_indexed = 6\<rparr>],
      usage_stats = [],
      memories_seq = 3, sessions_seq = 1, file_index_seq = 1, usage_stats_seq = 0\<rparr>"

definition store0 :: PostgresStore where
  "store0 = \<lparr>db = database0, issued = []\<rparr>"




text \<open>
  A server on \<open>store0\<close> with the publisher \<open>bus0\<close>, and the arguments of a call that
  names a memory which project \<open>t1\<close> does not have.
\<close>

definition server0 :: Server where
  "server0 = \<lparr>store = store0, embedding_service = \<lparr>url = [], dim = 384\<rparr>, events = Some bus0\<rparr>"

definition request0 :: "string \<rightharpoonup> string" where
  "request0 = [''project_id'' \<mapsto> ''t1'', ''topic'' \<mapsto> ''arch'', ''key'' \<mapsto> ''cache'']"




section \<open>Properties\<close>

subsection \<open>The token estimate\<close>

text \<open>
  C7: the token estimate depends on the tool name and the result count only. The three
  search tools multiply the result count by their weight (500, 2000 and 800 per result,
  so \<open>memory_search\<close> with three results gives 1500); every other tool name gives the
  constant 100, whatever the result count.
\<close>

theorem tokenEstimate_table:
  "tokenEstimate ''memory_search'' n = n * 500
   \<and> tokenEstimate ''session_search'' n = n * 2000
   \<and> tokenEstimate ''file_search'' n = n * 800
   \<and> tokenEstimate ''memory_search'' 3 = 1500
   \<and> (t \<notin> {''memory_search'', ''session_search'', ''file_search''} \<longrightarrow> tokenEstimate t n = 100)"
  by (simp add: tokenEstimate_def)

theorem tokenEstimate_table_witness:
  "''memory_set'' \<notin> {''memory_search'', ''session_search'', ''file_search''}
   \<and> tokenEstimate ''memory_set'' 3 = 100
   \<and> tokenEstimate ''memory_delete'' 0 = 100
   \<and> tokenEstimate ''memory_search'' 3 = 1500"
  using tokenEstimate_table [of 3 "''memory_set''"] tokenEstimate_table [of 0 "''memory_delete''"]
  by simp

subsection \<open>The embedding client\<close>

lemma Embed_good_example:
  "fst (Embed net0 \<lparr>url = ''http://localhost:8091/embed'', dim = 2\<rparr> ''auth'') = Some [1, 0]"
  by (simp add: Embed_def Enabled_def len_def net0_def)

text \<open>
  C6: \<open>Embed\<close> always returns a vector or absent, and nothing else: its result has no
  error component. The empty text gives absent and sends no request, and so does a service
  without URL. A failure to marshal or to build the request, a transport failure, a status
  other than 200, a body that does not decode and a vector whose length is not the
  configured dimension all give absent. A vector that is returned has the configured
  dimension and cost one request.
\<close>

theorem Embed_degrades_to_absent:
  "Embed net s [] = (None, [])
   \<and> (url s = [] \<longrightarrow> Embed net s text = (None, []))
   \<and> (marshal net text = None \<longrightarrow> fst (Embed net s text) = None)
   \<and> (marshal net text = Some body \<and> \<not> new_request net (url s) body \<longrightarrow> fst (Embed net s text) = None)
   \<and> (marshal net text = Some body \<and> client_Do net (url s) body = None \<longrightarrow> fst (Embed net s text) = None)
   \<and> (marshal net text = Some body \<and> client_Do net (url s) body = Some (status, respBody) \<and> status \<noteq> 200
        \<longrightarrow> fst (Embed net s text) = None)
   \<and> (marshal net text = Some body \<and> client_Do net (url s) body = Some (status, respBody)
        \<and> decode net respBody = None \<longrightarrow> fst (Embed net s text) = None)
   \<and> (marshal net text = Some body \<and> client_Do net (url s) body = Some (status, respBody)
        \<and> decode net respBody = Some vec \<and> len vec \<noteq> dim s \<longrightarrow> fst (Embed net s text) = None)
   \<and> (fst (Embed net s text) = Some v \<longrightarrow> int (length v) = dim s \<and> length (snd (Embed net s text)) = 1)"
  by (auto simp: Embed_def Enabled_def len_def split: option.splits if_splits)

theorem Embed_degrades_to_absent_witness:
  "(let s = \<lparr>url = ''http://localhost:8091/embed'', dim = 2\<rparr>
    in Embed net0 s [] = (None, [])
     \<and> url (s\<lparr>url := []\<rparr>) = [] \<and> Embed net0 (s\<lparr>url := []\<rparr>) ''auth'' = (None, [])
     \<and> marshal net0 ''unencodable'' = None \<and> fst (Embed net0 s ''unencodable'') = None
     \<and> marshal net0 ''auth'' = Some ''auth'' \<and> \<not> new_request net0 (url (s\<lparr>url := ''::''\<rparr>)) ''auth''
        \<and> fst (Embed net0 (s\<lparr>url := ''::''\<rparr>) ''auth'') = None
     \<and> client_Do net0 (url s) ''down'' = None \<and> fst (Embed net0 s ''down'') = None
     \<and> client_Do net0 (url s) ''busy'' = Some (503, ''retry later'') \<and> fst (Embed net0 s ''busy'') = None
     \<and> client_Do net0 (url s) ''garbled'' = Some (200, ''garbled'') \<and> decode net0 ''garbled'' = None
        \<and> fst (Embed net0 s ''garbled'') = None
     \<and> decode net0 ''short'' = Some (Some [1]) \<and> len (Some [1::real]) \<noteq> dim s
        \<and> fst (Embed net0 s ''short'') = None
     \<and> fst (Embed net0 s ''auth'') = Some [1, 0] \<and> int (length [1::real, 0]) = dim s
        \<and> length (snd (Embed net0 s ''auth'')) = 1)"
proof -
  define s where "s = \<lparr>url = ''http://localhost:8091/embed'', dim = 2\<rparr>"
  have su: "url s = ''http://localhost:8091/embed''" "dim s = 2"
    by (simp_all add: s_def)
  have good: "fst (Embed net0 s ''auth'') = Some [1, 0]"
    unfolding s_def by (rule Embed_good_example)
  show ?thesis
    unfolding Let_def s_def [symmetric]
    using Embed_degrades_to_absent [of net0 s "''auth''" "''auth''" 0 "[]" None "[1, 0]"]
      Embed_degrades_to_absent [of net0 "s\<lparr>url := []\<rparr>" "''auth''" "''auth''" 0 "[]" None "[1, 0]"]
      Embed_degrades_to_absent [of net0 s "''unencodable''" "[]" 0 "[]" None "[]"]
      Embed_degrades_to_absent [of net0 "s\<lparr>url := ''::''\<rparr>" "''auth''" "''auth''" 0 "[]" None "[]"]
      Embed_degrades_to_absent [of net0 s "''down''" "''down''" 0 "[]" None "[]"]
      Embed_degrades_to_absent [of net0 s "''busy''" "''busy''" 503 "''retry later''" None "[]"]
      Embed_degrades_to_absent [of net0 s "''garbled''" "''garbled''" 200 "''garbled''" None "[]"]
      Embed_degrades_to_absent [of net0 s "''short''" "''short''" 200 "''short''" "Some [1]" "[]"]
      good
    by (simp add: net0_def su len_def)
qed

subsection \<open>The event bus\<close>

text \<open>
  C8: \<open>Publish\<close> is a total function of the bus and the event, with no error in its
  result: it returns for every state of the subscribers. It leaves the registry as it is.
  A registered subscriber whose inbox holds 16 messages keeps exactly that inbox (the event
  is dropped for it); a registered subscriber with room gets the event appended; a channel
  that is not registered is not touched.
\<close>

theorem Publish_skips_full_inbox:
  "clients (Publish event eb) = clients eb
   \<and> made (Publish event eb) = made eb
   \<and> (ch \<in> clients eb \<and> 16 \<le> length (inbox eb ch) \<longrightarrow> inbox (Publish event eb) ch = inbox eb ch)
   \<and> (ch \<in> clients eb \<and> length (inbox eb ch) < 16 \<longrightarrow> inbox (Publish event eb) ch = inbox eb ch @ [event])
   \<and> (ch \<notin> clients eb \<longrightarrow> inbox (Publish event eb) ch = inbox eb ch)"
  by (simp add: Publish_def try_send_def)

theorem Publish_skips_full_inbox_witness:
  "0 \<in> clients bus0 \<and> 16 \<le> length (inbox bus0 0)
   \<and> inbox (Publish ''dashboard-stats'' bus0) 0 = inbox bus0 0
   \<and> 1 \<in> clients bus0 \<and> length (inbox bus0 1) < 16
   \<and> inbox (Publish ''dashboard-stats'' bus0) 1 = [''dashboard-stats'']
   \<and> 2 \<notin> clients bus0
   \<and> inbox (Publish ''dashboard-stats'' bus0) 2 = []
   \<and> clients (Publish ''dashboard-stats'' bus0) = {0, 1}"
  using Publish_skips_full_inbox [of "''dashboard-stats''" bus0 0]
    Publish_skips_full_inbox [of "''dashboard-stats''" bus0 1]
    Publish_skips_full_inbox [of "''dashboard-stats''" bus0 2]
  by (simp add: bus0_def)

lemma unregister_removes: "ch \<notin> clients (unregister ch eb) \<and> inbox (unregister ch eb) = inbox eb"
  by (simp add: unregister_def)

lemma drain_closed_returns: "drain True buf = Some []"
  by (induction buf) (simp_all add: drain.simps)

lemma drain_never_returns: "drain False buf \<noteq> Some y"
proof
  assume "drain False buf = Some y"
  then show False
    by (rule drain.raw_induct [rotated, where P = "\<lambda>is_closed _ _. is_closed"])
       (auto split: list.splits if_splits)
qed

lemma unsub_never_returns: "unsub ch eb = None"
  using drain_never_returns [of "inbox (unregister ch eb) ch"]
  by (cases "drain False (inbox (unregister ch eb) ch)") (auto simp: unsub_def Let_def)

text \<open>
  C9, at the subscriber of a fresh bus: the function returned by \<open>Subscribe\<close>, called
  right away, does not return. It removes the channel from the registry and then waits on
  the empty channel, which nothing closes.
\<close>

theorem unsub_of_fresh_subscriber_blocks:
  "(case Subscribe NewEventBus of (ch, eb) \<Rightarrow> unsub ch eb) = None
   \<and> (case Subscribe NewEventBus of (ch, eb) \<Rightarrow> ch \<in> clients eb \<and> inbox eb ch = [])"
  by (simp add: unsub_never_returns Subscribe_def NewEventBus_def Let_def)

subsection \<open>Strategy selection in the single-kind searches\<close>

lemma in_set_map_filter: "y \<in> set (List.map_filter f xs) \<longleftrightarrow> (\<exists>x \<in> set xs. f x = Some y)"
  by (induction xs) (auto split: option.splits)

lemma rank_similar_rows:
  "(r, sc) \<in> set (rank_similar e pj emb pid v n rows)
   \<Longrightarrow> r \<in> set rows \<and> pj r = pid \<and> (\<exists>x. emb r = Some x \<and> sc = one_minus (cosine_distance e x v))"
  unfolding rank_similar_def
  by (auto simp: in_set_map_filter dest!: in_set_takeD split: if_splits)

lemma rank_keyword_rows:
  "(r, sc) \<in> set (rank_keyword e pj doc pid q n rows)
   \<Longrightarrow> r \<in> set rows \<and> pj r = pid \<and> ts_match e (doc r) q \<and> sc = ts_rank e (doc r) q"
  unfolding rank_keyword_def
  by (auto dest!: in_set_takeD)

lemma SearchMemories_one_strategy:
  "issued (snd (SearchMemories e pid q emb limit s)) =
     issued s @ [case emb of
                   Some v \<Rightarrow> SearchSimilar memories_table pid v (if limit \<le> 0 then 10 else limit)
                 | None \<Rightarrow> SearchKeyword memories_table pid q (if limit \<le> 0 then 10 else limit)]
   \<and> (emb = Some v \<longrightarrow>
        (\<forall>m \<in> set (fst (fst (SearchMemories e pid q emb limit s))).
           \<exists>r \<in> set (memories (db s)). \<exists>x. mr_project_id r = pid \<and> mr_embedding r = Some x
              \<and> m = scan_memory r (one_minus (cosine_distance e x v))))
   \<and> (emb = None \<longrightarrow>
        (\<forall>m \<in> set (fst (fst (SearchMemories e pid q emb limit s))).
           \<exists>r \<in> set (memories (db s)). mr_project_id r = pid \<and> ts_match e (mr_value r) q
              \<and> m = scan_memory r (ts_rank e (mr_value r) q)))"
  by (cases emb)
     (auto simp: SearchMemories_def pool_send_def Let_def split: option.splits
           dest!: rank_similar_rows rank_keyword_rows)

lemma SearchSessions_one_strategy:
  "issued (snd (SearchSessions e pid q emb limit s)) =
     issued s @ [case emb of
                   Some v \<Rightarrow> SearchSimilar sessions_table pid v (if limit \<le> 0 then 10 else limit)
                 | None \<Rightarrow> SearchKeyword sessions_table pid q (if limit \<le> 0 then 10 else limit)]
   \<and> (emb = Some v \<longrightarrow>
        (\<forall>m \<in> set (fst (fst (SearchSessions e pid q emb limit s))).
           \<exists>r \<in> set (sessions (db s)). \<exists>x. sr_project_id r = pid \<and> sr_embedding r = Some x
              \<and> m = scan_session r [] (one_minus (cosine_distance e x v))))
   \<and> (emb = None \<longrightarrow>
        (\<forall>m \<in> set (fst (fst (SearchSessions e pid q emb limit s))).
           \<exists>r \<in> set (sessions (db s)). sr_project_id r = pid \<and> ts_match e (session_document r) q
              \<and> m = scan_session r [] (ts_rank e (session_document r) q)))"
  by (cases emb)
     (auto simp: SearchSessions_def pool_send_def Let_def split: option.splits
           dest!: rank_similar_rows rank_keyword_rows)

lemma SearchFiles_one_strategy:
  "issued (snd (SearchFiles e pid q emb limit s)) =
     issued s @ [case emb of
                   Some v \<Rightarrow> SearchSimilar file_index_table pid v (if limit \<le> 0 then 10 else limit)
                 | None \<Rightarrow> SearchKeyword file_index_table pid q (if limit \<le> 0 then 10 else limit)]
   \<and> (emb = Some v \<longrightarrow>
        (\<forall>m \<in> set (fst (fst (SearchFiles e pid q emb limit s))).
           \<exists>r \<in> set (file_index (db s)). \<exists>x. fr_project_id r = pid \<and> fr_embedding r = Some x
              \<and> m = scan_file r (one_minus (cosine_distance e x v))))
   \<and> (emb = None \<longrightarrow>
        (\<forall>m \<in> set (fst (fst (SearchFiles e pid q emb limit s))).
           \<exists>r \<in> set (file_index (db s)). fr_project_id r = pid \<and> ts_match e (fr_summary r) q
              \<and> m = scan_file r (ts_rank e (fr_summary r) q)))"
  by (cases emb)
     (auto simp: SearchFiles_def pool_send_def Let_def split: option.splits
           dest!: rank_similar_rows rank_keyword_rows)

lemma issued_store0: "issued store0 = []"
  by (simp add: store0_def)

lemma SearchMemories_examples:
  "map m_ID (fst (fst (SearchMemories engine0 ''t1'' ''auth'' (Some [1, 0]) 0 store0))) = [1]
   \<and> map m_ID (fst (fst (SearchMemories engine0 ''t1'' ''auth'' None 2 store0))) = [1, 2]"
  by (simp add: SearchMemories_def pool_send_def engine0_def store0_def database0_def
        rank_keyword_def rank_similar_def scan_memory_def pg_key_desc_def)

text \<open>
  C1: each of \<open>SearchMemories\<close>, \<open>SearchSessions\<close> and \<open>SearchFiles\<close> sends exactly one
  statement: the similarity-ranked selection when a vector is supplied, the keyword-ranked
  selection when none is. With a vector, every item returned comes from a row of the
  project whose stored vector is not absent, scored by \<open>1 - distance\<close>; without one, every
  item returned comes from a row of the project whose text matches the query, scored by its
  rank. No call sends both statements.
\<close>

theorem search_runs_one_strategy:
  "issued (snd (SearchMemories e pid q emb limit s)) =
     issued s @ [case emb of
                   Some v \<Rightarrow> SearchSimilar memories_table pid v (if limit \<le> 0 then 10 else limit)
                 | None \<Rightarrow> SearchKeyword memories_table pid q (if limit \<le> 0 then 10 else limit)]
   \<and> issued (snd (SearchSessions e pid q emb limit s)) =
     issued s @ [case emb of
                   Some v \<Rightarrow> SearchSimilar sessions_table pid v (if limit \<le> 0 then 10 else limit)
                 | None \<Rightarrow> SearchKeyword sessions_table pid q (if limit \<le> 0 then 10 else limit)]
   \<and> issued (snd (SearchFiles e pid q emb limit s)) =
     issued s @ [case emb of
                   Some v \<Rightarrow> SearchSimilar file_index_table pid v (if limit \<le> 0 then 10 else limit)
                 | None \<Rightarrow> SearchKeyword file_index_table pid q (if limit \<le> 0 then 10 else limit)]
   \<and> (emb = Some v \<longrightarrow>
        (\<forall>m \<in> set (fst (fst (SearchMemories e pid q emb limit s))).
           \<exists>r \<in> set (memories (db s)). \<exists>x. mr_project_id r = pid \<and> mr_embedding r = Some x
              \<and> m = scan_memory r (one_minus (cosine_distance e x v)))
        \<and> (\<forall>m \<in> set (fst (fst (SearchSessions e pid q emb limit s))).
           \<exists>r \<in> set (sessions (db s)). \<exists>x. sr_project_id r = pid \<and> sr_embedding r = Some x
              \<and> m = scan_session r [] (one_minus (cosine_distance e x v)))
        \<and> (\<forall>m \<in> set (fst (fst (SearchFiles e pid q emb limit s))).
           \<exists>r \<in> set (file_index (db s)). \<exists>x. fr_project_id r = pid \<and> fr_embedding r = Some x
              \<and> m = scan_file r (one_minus (cosine_distance e x v))))
   \<and> (emb = None \<longrightarrow>
        (\<forall>m \<in> set (fst (fst (SearchMemories e pid q emb limit s))).
           \<exists>r \<in> set (memories (db s)). mr_project_id r = pid \<and> ts_match e (mr_value r) q
              \<and> m = scan_memory r (ts_rank e (mr_value r) q))
        \<and> (\<forall>m \<in> set (fst (fst (SearchSessions e pid q emb limit s))).
           \<exists>r \<in> set (sessions (db s)). sr_project_id r = pid \<and> ts_match e (session_document r) q
              \<and> m = scan_session r [] (ts_rank e (session_document r) q))
        \<and> (\<forall>m \<in> set (fst (fst (SearchFiles e pid q emb limit s))).
           \<exists>r \<in> set (file_index (db s)). fr_project_id r = pid \<and> ts_match e (fr_summary r) q
              \<and> m = scan_file r (ts_rank e (fr_summary r) q)))"
  using SearchMemories_one_strategy [of e pid q emb limit s v]
    SearchSessions_one_strategy [of e pid q emb limit s v]
    SearchFiles_one_strategy [of e pid q emb limit s v]
  by blast

theorem search_runs_one_strategy_witness:
  "issued (snd (SearchMemories engine0 ''t1'' ''auth'' (Some [1, 0]) 0 store0)) =
     [SearchSimilar memories_table ''t1'' [1, 0] 10]
   \<and> issued (snd (SearchSessions engine0 ''t1'' ''auth'' (Some [1, 0]) 0 store0)) =
     [SearchSimilar sessions_table ''t1'' [1, 0] 10]
   \<and> issued (snd (SearchFiles engine0 ''t1'' ''auth'' None 2 store0)) =
     [SearchKeyword file_index_table ''t1'' ''auth'' 2]
   \<and> list_all
        (\<lambda>m. \<exists>r \<in> set (memories (db store0)). \<exists>x. mr_project_id r = ''t1'' \<and> mr_embedding r = Some x
            \<and> m = scan_memory r (one_minus (cosine_distance engine0 x [1, 0])))
        (fst (fst (SearchMemories engine0 ''t1'' ''auth'' (Some [1, 0]) 0 store0)))
   \<and> list_all
        (\<lambda>m. \<exists>r \<in> set (memories (db store0)). mr_project_id r = ''t1'' \<and> ts_match engine0 (mr_value r) ''auth''
            \<and> m = scan_memory r (ts_rank engine0 (mr_value r) ''auth''))
        (fst (fst (SearchMemories engine0 ''t1'' ''auth'' None 2 store0)))
   \<and> map m_ID (fst (fst (SearchMemories engine0 ''t1'' ''auth'' (Some [1, 0]) 0 store0))) = [1]
   \<and> map m_ID (fst (fst (SearchMemories engine0 ''t1'' ''auth'' None 2 store0))) = [1, 2]"
  using search_runs_one_strategy [of engine0 "''t1''" "''auth''" "Some [1, 0]" 0 store0 "[1, 0]"]
    search_runs_one_strategy [of engine0 "''t1''" "''auth''" None 2 store0 "[]"]
    SearchMemories_examples
  by (simp add: issued_store0 list_all_iff)

subsection \<open>Reading a key that is not there\<close>

lemma GetMemory_missing:
  "db (snd (GetMemory e pid topic key s)) = db s
   \<and> (rejects e (SelectMemory pid topic key) = None
        \<and> (\<forall>r \<in> set (memories (db s)). \<not> memory_key pid topic key r)
      \<longrightarrow> fst (GetMemory e pid topic key s) = (None, None))"
proof -
  have "find (memory_key pid topic key) (memories (db s)) = None"
    if "\<forall>r \<in> set (memories (db s)). \<not> memory_key pid topic key r"
    using that by (simp add: find_None_iff)
  then show ?thesis
    by (auto simp: GetMemory_def pool_send_def Let_def split: option.splits)
qed

lemma GetSession_missing:
  "db (snd (GetSession e pid num s)) = db s
   \<and> (rejects e (SelectSession pid num) = None
        \<and> (\<forall>r \<in> set (sessions (db s)). \<not> session_key pid num r)
      \<longrightarrow> fst (GetSession e pid num s) = (None, None))"
proof -
  have "find (session_key pid num) (sessions (db s)) = None"
    if "\<forall>r \<in> set (sessions (db s)). \<not> session_key pid num r"
    using that by (simp add: find_None_iff)
  then show ?thesis
    by (auto simp: GetSession_def pool_send_def Let_def split: option.splits)
qed

lemma GetProject_missing:
  "db (snd (GetProject e pid s)) = db s
   \<and> (rejects e (SelectProject pid) = None
        \<and> (\<forall>p \<in> set (projects (db s)). p_ID p \<noteq> pid)
      \<longrightarrow> fst (GetProject e pid s) = (None, None))"
proof -
  have "find (\<lambda>p. p_ID p = pid) (projects (db s)) = None"
    if "\<forall>p \<in> set (projects (db s)). p_ID p \<noteq> pid"
    using that by (simp add: find_None_iff)
  then show ?thesis
    by (auto simp: GetProject_def pool_send_def Let_def split: option.splits)
qed

text \<open>
  C10: when the engine runs the selection and no row has the given project and key,
  \<open>GetMemory\<close>, \<open>GetSession\<close> and \<open>GetProject\<close> return absent together with no error.
  The database is the same after the call as before it, in this case and in every other.
\<close>

theorem get_of_missing_key_is_absent:
  "(rejects e (SelectMemory pid topic key) = None
      \<and> (\<forall>r \<in> set (memories (db s)). \<not> memory_key pid topic key r)
    \<longrightarrow> fst (GetMemory e pid topic key s) = (None, None))
   \<and> (rejects e (SelectSession pid num) = None
      \<and> (\<forall>r \<in> set (sessions (db s)). \<not> session_key pid num r)
    \<longrightarrow> fst (GetSession e pid num s) = (None, None))
   \<and> (rejects e (SelectProject pid) = None
      \<and> (\<forall>p \<in> set (projects (db s)). p_ID p \<noteq> pid)
    \<longrightarrow> fst (GetProject e pid s) = (None, None))
   \<and> db (snd (GetMemory e pid topic key s)) = db s
   \<and> db (snd (GetSession e pid num s)) = db s
   \<and> db (snd (GetProject e pid s)) = db s"
  using GetMemory_missing [of e pid topic key s] GetSession_missing [of e pid num s]
    GetProject_missing [of e pid s]
  by blast

theorem get_of_missing_key_is_absent_witness:
  "rejects engine0 (SelectMemory ''t1'' ''arch'' ''cache'') = None
   \<and> list_all (\<lambda>r. \<not> memory_key ''t1'' ''arch'' ''cache'' r) (memories (db store0))
   \<and> fst (GetMemory engine0 ''t1'' ''arch'' ''cache'' store0) = (None, None)
   \<and> rejects engine0 (SelectSession ''t1'' 2) = None
   \<and> list_all (\<lambda>r. \<not> session_key ''t1'' 2 r) (sessions (db store0))
   \<and> fst (GetSession engine0 ''t1'' 2 store0) = (None, None)
   \<and> rejects engine0 (SelectProject ''t3'') = None
   \<and> list_all (\<lambda>p. p_ID p \<noteq> ''t3'') (projects (db store0))
   \<and> fst (GetProject engine0 ''t3'' store0) = (None, None)
   \<and> db (snd (GetMemory engine0 ''t1'' ''arch'' ''cache'' store0)) = db store0"
proof -
  have h1: "rejects engine0 (SelectMemory ''t1'' ''arch'' ''cache'') = None"
    "rejects engine0 (SelectSession ''t1'' 2) = None"
    "rejects engine0 (SelectProject ''t3'') = None"
    by (simp_all add: engine0_def)
  have h2: "\<forall>r \<in> set (memories (db store0)). \<not> memory_key ''t1'' ''arch'' ''cache'' r"
    by (simp add: store0_def database0_def memory_key_def)
  have h3: "\<forall>r \<in> set (sessions (db store0)). \<not> session_key ''t1'' 2 r"
    by (simp add: store0_def database0_def session_key_def)
  have h4: "\<forall>p \<in> set (projects (db store0)). p_ID p \<noteq> ''t3''"
    by (simp add: store0_def database0_def)
  show ?thesis
    unfolding list_all_iff
    using get_of_missing_key_is_absent [of engine0 "''t1''" "''arch''" "''cache''" store0 2]
      get_of_missing_key_is_absent [of engine0 "''t3''" "''arch''" "''cache''" store0 2]
      h1 h2 h3 h4
    by blast
qed

subsection \<open>Upserts and the stored vector\<close>







subsection \<open>The sort of the search across projects\<close>

lemma length_sort_outer: "length (sort_outer Score i xs) = length xs"
proof (induction Score i xs rule: sort_outer.induct)
  case (1 Score i xs)
  then show ?case
    by (subst sort_outer.simps) (simp add: length_sort_inner)
qed

lemma mset_sort_inner: "i < length xs \<Longrightarrow> mset (sort_inner Score i j xs) = mset xs"
proof (induction Score i j xs rule: sort_inner.induct)
  case (1 Score i j xs)
  show ?case
  proof (cases "j < length xs")
    case True
    have "mset (xs[i := xs ! j, j := xs ! i]) = mset xs"
      using True 1(2) by (simp add: mset_swap)
    with 1 True show ?thesis
      by (subst sort_inner.simps) simp
  next
    case False
    then show ?thesis by (subst sort_inner.simps) simp
  qed
qed

lemma mset_sort_outer: "mset (sort_outer Score i xs) = mset xs"
proof (induction Score i xs rule: sort_outer.induct)
  case (1 Score i xs)
  then show ?case
    by (subst sort_outer.simps) (simp add: mset_sort_inner)
qed










lemma sort_and_cap_all:
  "int (length xs) \<le> limit \<Longrightarrow> mset (sort_and_cap Score limit xs) = mset xs"
  by (simp add: sort_and_cap_def Let_def sortAndCap_def length_sort_outer mset_sort_outer)

subsection \<open>The search across projects\<close>

lemma SearchMemories_db: "db (snd (SearchMemories e pid q emb limit s)) = db s"
  by (simp add: SearchMemories_def pool_send_def Let_def split: option.splits)

lemma SearchSessions_db: "db (snd (SearchSessions e pid q emb limit s)) = db s"
  by (simp add: SearchSessions_def pool_send_def Let_def split: option.splits)

lemma SearchFiles_db: "db (snd (SearchFiles e pid q emb limit s)) = db s"
  by (simp add: SearchFiles_def pool_send_def Let_def split: option.splits)

lemma SearchMemories_cong:
  "db s = db s' \<Longrightarrow> fst (SearchMemories e pid q emb limit s) = fst (SearchMemories e pid q emb limit s')"
  by (simp add: SearchMemories_def pool_send_def Let_def split: option.splits)

lemma SearchSessions_cong:
  "db s = db s' \<Longrightarrow> fst (SearchSessions e pid q emb limit s) = fst (SearchSessions e pid q emb limit s')"
  by (simp add: SearchSessions_def pool_send_def Let_def split: option.splits)

lemma SearchFiles_cong:
  "db s = db s' \<Longrightarrow> fst (SearchFiles e pid q emb limit s) = fst (SearchFiles e pid q emb limit s')"
  by (simp add: SearchFiles_def pool_send_def Let_def split: option.splits)

lemma SearchAll_loop_step:
  "SearchAll_loop e q emb limit (p # ps) result s =
     SearchAll_loop e q emb limit ps
       \<lparr>Memories = Memories result @ memories_found e q emb limit s p,
        Sessions = Sessions result @ sessions_found e q emb limit s p,
        Files = Files result @ files_found e q emb limit s p\<rparr>
       (snd (SearchFiles e (p_ID p) q emb limit
          (snd (SearchSessions e (p_ID p) q emb limit
             (snd (SearchMemories e (p_ID p) q emb limit s))))))"
proof -
  obtain ms e1 s1 where m: "SearchMemories e (p_ID p) q emb limit s = ((ms, e1), s1)"
    by (metis surj_pair)
  obtain ss e2 s2 where ss: "SearchSessions e (p_ID p) q emb limit s1 = ((ss, e2), s2)"
    by (metis surj_pair)
  obtain fs e3 s3 where f: "SearchFiles e (p_ID p) q emb limit s2 = ((fs, e3), s3)"
    by (metis surj_pair)
  have d1: "db s1 = db s"
    using SearchMemories_db [of e "p_ID p" q emb limit s] m by simp
  have d2: "db s2 = db s"
    using SearchSessions_db [of e "p_ID p" q emb limit s1] ss d1 by simp
  have s': "fst (SearchSessions e (p_ID p) q emb limit s) = (ss, e2)"
    using SearchSessions_cong [OF d1, of e "p_ID p" q emb limit] ss by simp
  have f': "fst (SearchFiles e (p_ID p) q emb limit s) = (fs, e3)"
    using SearchFiles_cong [OF d2, of e "p_ID p" q emb limit] f by simp
  obtain a b c where res: "result = \<lparr>Memories = a, Sessions = b, Files = c\<rparr>"
    by (cases result) simp
  show ?thesis
    by (cases e1; cases e2; cases e3)
       (simp_all add: res m ss f s' f' memories_found_def sessions_found_def files_found_def)
qed

lemma SearchAll_loop_result:
  "db s = db s0 \<Longrightarrow>
   fst (SearchAll_loop e q emb limit ps result s) =
     \<lparr>Memories = Memories result @ concat (map (memories_found e q emb limit s0) ps),
      Sessions = Sessions result @ concat (map (sessions_found e q emb limit s0) ps),
      Files = Files result @ concat (map (files_found e q emb limit s0) ps)\<rparr>"
proof (induction ps arbitrary: result s)
  case Nil
  then show ?case by simp
next
  case (Cons p ps)
  let ?s3 = "snd (SearchFiles e (p_ID p) q emb limit
          (snd (SearchSessions e (p_ID p) q emb limit
             (snd (SearchMemories e (p_ID p) q emb limit s)))))"
  have d3: "db ?s3 = db s0"
    using Cons.prems by (simp add: SearchFiles_db SearchSessions_db SearchMemories_db)
  have same: "memories_found e q emb limit s p = memories_found e q emb limit s0 p"
    "sessions_found e q emb limit s p = sessions_found e q emb limit s0 p"
    "files_found e q emb limit s p = files_found e q emb limit s0 p"
    using Cons.prems SearchMemories_cong [of s s0 e "p_ID p" q emb limit]
      SearchSessions_cong [of s s0 e "p_ID p" q emb limit]
      SearchFiles_cong [of s s0 e "p_ID p" q emb limit]
    by (simp_all add: memories_found_def sessions_found_def files_found_def)
  show ?case
    unfolding SearchAll_loop_step
    by (simp add: Cons.IH [OF d3] same del: SearchAll_loop.simps)
qed

lemma SearchAll_ok:
  assumes "rejects e SelectProjects = None"
  shows "fst (SearchAll e q emb limit s) =
     (\<lparr>Memories = sort_and_cap m_Score (if limit \<le> 0 then 10 else limit)
                    (concat (map (memories_found e q emb (if limit \<le> 0 then 10 else limit) s)
                       (sort_key p_Name (projects (db s))))),
       Sessions = sort_and_cap s_Score (if limit \<le> 0 then 10 else limit)
                    (concat (map (sessions_found e q emb (if limit \<le> 0 then 10 else limit) s)
                       (sort_key p_Name (projects (db s))))),
       Files = sort_and_cap f_Score (if limit \<le> 0 then 10 else limit)
                    (concat (map (files_found e q emb (if limit \<le> 0 then 10 else limit) s)
                       (sort_key p_Name (projects (db s)))))\<rparr>, None)"
proof -
  let ?l = "if limit \<le> 0 then 10 else limit"
  let ?s1 = "s\<lparr>issued := issued s @ [SelectProjects]\<rparr>"
  have lp: "ListProjects e s = ((sort_key p_Name (projects (db s)), None), ?s1)"
    using assms by (simp add: ListProjects_def pool_send_def)
  have d: "db ?s1 = db s" by simp
  obtain r s2 where loop: "SearchAll_loop e q emb ?l (sort_key p_Name (projects (db s)))
            \<lparr>Memories = [], Sessions = [], Files = []\<rparr> ?s1 = (r, s2)"
    by (metis surj_pair)
  have r: "r = \<lparr>Memories = concat (map (memories_found e q emb ?l s) (sort_key p_Name (projects (db s)))),
      Sessions = concat (map (sessions_found e q emb ?l s) (sort_key p_Name (projects (db s)))),
      Files = concat (map (files_found e q emb ?l s) (sort_key p_Name (projects (db s))))\<rparr>"
    using SearchAll_loop_result [OF d, of e q emb ?l "sort_key p_Name (projects (db s))"
        "\<lparr>Memories = [], Sessions = [], Files = []\<rparr>"] loop
    by simp
  show ?thesis
    unfolding SearchAll_def Let_def lp
    by (simp add: loop r del: SearchAll_loop.simps)
qed









text \<open>
  C3: when the projects can be listed, \<open>SearchAll\<close> returns no error, whichever of the
  searches fail. Each list it returns is the sorted and capped concatenation, over the
  projects in their order, of what each project contributes to that kind: nothing when
  that search of that project returned an error, the whole result of the search otherwise,
  also for a project whose search of another kind failed. When the contributions to a kind
  number at most the limit, all of them are in the list returned.
\<close>

theorem SearchAll_skips_failed_search:
  "rejects e SelectProjects = None \<longrightarrow>
     (let l = (if limit \<le> 0 then 10 else limit);
          ps = sort_key p_Name (projects (db s));
          result = fst (fst (SearchAll e q emb limit s))
      in snd (fst (SearchAll e q emb limit s)) = None
       \<and> Memories result = sort_and_cap m_Score l (concat (map (memories_found e q emb l s) ps))
       \<and> Sessions result = sort_and_cap s_Score l (concat (map (sessions_found e q emb l s) ps))
       \<and> Files result = sort_and_cap f_Score l (concat (map (files_found e q emb l s) ps))
       \<and> (snd (fst (SearchMemories e (p_ID p) q emb l s)) \<noteq> None \<longrightarrow> memories_found e q emb l s p = [])
       \<and> (snd (fst (SearchSessions e (p_ID p) q emb l s)) \<noteq> None \<longrightarrow> sessions_found e q emb l s p = [])
       \<and> (snd (fst (SearchFiles e (p_ID p) q emb l s)) \<noteq> None \<longrightarrow> files_found e q emb l s p = [])
       \<and> (snd (fst (SearchMemories e (p_ID p) q emb l s)) = None
            \<longrightarrow> memories_found e q emb l s p = fst (fst (SearchMemories e (p_ID p) q emb l s)))
       \<and> (snd (fst (SearchSessions e (p_ID p) q emb l s)) = None
            \<longrightarrow> sessions_found e q emb l s p = fst (fst (SearchSessions e (p_ID p) q emb l s)))
       \<and> (snd (fst (SearchFiles e (p_ID p) q emb l s)) = None
            \<longrightarrow> files_found e q emb l s p = fst (fst (SearchFiles e (p_ID p) q emb l s)))
       \<and> (int (length (concat (map (memories_found e q emb l s) ps))) \<le> l
            \<longrightarrow> mset (Memories result) = mset (concat (map (memories_found e q emb l s) ps)))
       \<and> (int (length (concat (map (sessions_found e q emb l s) ps))) \<le> l
            \<longrightarrow> mset (Sessions result) = mset (concat (map (sessions_found e q emb l s) ps)))
       \<and> (int (length (concat (map (files_found e q emb l s) ps))) \<le> l
            \<longrightarrow> mset (Files result) = mset (concat (map (files_found e q emb l s) ps))))"
proof
  assume ok: "rejects e SelectProjects = None"
  define l where "l = (if limit \<le> 0 then 10 else limit)"
  define ps where "ps = sort_key p_Name (projects (db s))"
  have res: "fst (SearchAll e q emb limit s) =
     (\<lparr>Memories = sort_and_cap m_Score l (concat (map (memories_found e q emb l s) ps)),
       Sessions = sort_and_cap s_Score l (concat (map (sessions_found e q emb l s) ps)),
       Files = sort_and_cap f_Score l (concat (map (files_found e q emb l s) ps))\<rparr>, None)"
    unfolding l_def ps_def by (rule SearchAll_ok [OF ok])
  have found:
    "snd (fst (SearchMemories e (p_ID p) q emb l s)) \<noteq> None \<longrightarrow> memories_found e q emb l s p = []"
    "snd (fst (SearchSessions e (p_ID p) q emb l s)) \<noteq> None \<longrightarrow> sessions_found e q emb l s p = []"
    "snd (fst (SearchFiles e (p_ID p) q emb l s)) \<noteq> None \<longrightarrow> files_found e q emb l s p = []"
    "snd (fst (SearchMemories e (p_ID p) q emb l s)) = None
       \<longrightarrow> memories_found e q emb l s p = fst (fst (SearchMemories e (p_ID p) q emb l s))"
    "snd (fst (SearchSessions e (p_ID p) q emb l s)) = None
       \<longrightarrow> sessions_found e q emb l s p = fst (fst (SearchSessions e (p_ID p) q emb l s))"
    "snd (fst (SearchFiles e (p_ID p) q emb l s)) = None
       \<longrightarrow> files_found e q emb l s p = fst (fst (SearchFiles e (p_ID p) q emb l s))"
    by (simp_all add: memories_found_def sessions_found_def files_found_def split: prod.splits)
  have lists:
    "snd (fst (SearchAll e q emb limit s)) = None"
    "Memories (fst (fst (SearchAll e q emb limit s))) =
       sort_and_cap m_Score l (concat (map (memories_found e q emb l s) ps))"
    "Sessions (fst (fst (SearchAll e q emb limit s))) =
       sort_and_cap s_Score l (concat (map (sessions_found e q emb l s) ps))"
    "Files (fst (fst (SearchAll e q emb limit s))) =
       sort_and_cap f_Score l (concat (map (files_found e q emb l s) ps))"
    unfolding res by simp_all
  have everything:
    "int (length (concat (map (memories_found e q emb l s) ps))) \<le> l
       \<longrightarrow> mset (Memories (fst (fst (SearchAll e q emb limit s)))) =
           mset (concat (map (memories_found e q emb l s) ps))"
    "int (length (concat (map (sessions_found e q emb l s) ps))) \<le> l
       \<longrightarrow> mset (Sessions (fst (fst (SearchAll e q emb limit s)))) =
           mset (concat (map (sessions_found e q emb l s) ps))"
    "int (length (concat (map (files_found e q emb l s) ps))) \<le> l
       \<longrightarrow> mset (Files (fst (fst (SearchAll e q emb limit s)))) =
           mset (concat (map (files_found e q emb l s) ps))"
    unfolding lists by (auto intro: sort_and_cap_all)
  show "let l = (if limit \<le> 0 then 10 else limit);
          ps = sort_key p_Name (projects (db s));
          result = fst (fst (SearchAll e q emb limit s))
      in snd (fst (SearchAll e q emb limit s)) = None
       \<and> Memories result = sort_and_cap m_Score l (concat (map (memories_found e q emb l s) ps))
       \<and> Sessions result = sort_and_cap s_Score l (concat (map (sessions_found e q emb l s) ps))
       \<and> Files result = sort_and_cap f_Score l (concat (map (files_found e q emb l s) ps))
       \<and> (snd (fst (SearchMemories e (p_ID p) q emb l s)) \<noteq> None \<longrightarrow> memories_found e q emb l s p = [])
       \<and> (snd (fst (SearchSessions e (p_ID p) q emb l s)) \<noteq> None \<longrightarrow> sessions_found e q emb l s p = [])
       \<and> (snd (fst (SearchFiles e (p_ID p) q emb l s)) \<noteq> None \<longrightarrow> files_found e q emb l s p = [])
       \<and> (snd (fst (SearchMemories e (p_ID p) q emb l s)) = None
            \<longrightarrow> memories_found e q emb l s p = fst (fst (SearchMemories e (p_ID p) q emb l s)))
       \<and> (snd (fst (SearchSessions e (p_ID p) q emb l s)) = None
            \<longrightarrow> sessions_found e q emb l s p = fst (fst (SearchSessions e (p_ID p) q emb l s)))
       \<and> (snd (fst (SearchFiles e (p_ID p) q emb l s)) = None
            \<longrightarrow> files_found e q emb l s p = fst (fst (SearchFiles e (p_ID p) q emb l s)))
       \<and> (int (length (concat (map (memories_found e q emb l s) ps))) \<le> l
            \<longrightarrow> mset (Memories result) = mset (concat (map (memories_found e q emb l s) ps)))
       \<and> (int (length (concat (map (sessions_found e q emb l s) ps))) \<le> l
            \<longrightarrow> mset (Sessions result) = mset (concat (map (sessions_found e q emb l s) ps)))
       \<and> (int (length (concat (map (files_found e q emb l s) ps))) \<le> l
            \<longrightarrow> mset (Files result) = mset (concat (map (files_found e q emb l s) ps)))"
    unfolding Let_def l_def [symmetric] ps_def [symmetric]
    using found everything lists by blast
qed

lemma SearchAll_example_failed_search:
  "map m_ID (sort_and_cap m_Score 2 (concat (map (memories_found engine1 ''auth'' None 2 store0)
       (sort_key p_Name (projects (db store0)))))) = [3]
   \<and> map s_ID (sort_and_cap s_Score 2 (concat (map (sessions_found engine1 ''auth'' None 2 store0)
       (sort_key p_Name (projects (db store0)))))) = [1]
   \<and> map f_ID (sort_and_cap f_Score 2 (concat (map (files_found engine1 ''auth'' None 2 store0)
       (sort_key p_Name (projects (db store0)))))) = [1]"
  by (simp add: memories_found_def sessions_found_def files_found_def SearchMemories_def
        SearchSessions_def SearchFiles_def pool_send_def engine1_def engine0_def
        store0_def database0_def rank_keyword_def scan_memory_def scan_session_def scan_file_def
        session_document_def sort_and_cap_def sortAndCap_def sort_outer.simps sort_inner.simps
        float64_gt_def pg_key_desc_def)

lemma SearchMemories_example_failed:
  "snd (fst (SearchMemories engine1 ''t1'' ''auth'' None 2 store0)) = Some (PgError ''connection reset'')"
  by (simp add: SearchMemories_def pool_send_def engine1_def engine0_def)

theorem SearchAll_skips_failed_search_witness:
  "rejects engine1 SelectProjects = None
   \<and> snd (fst (SearchMemories engine1 ''t1'' ''auth'' None 2 store0)) = Some (PgError ''connection reset'')
   \<and> snd (fst (SearchAll engine1 ''auth'' None 2 store0)) = None
   \<and> map m_ID (Memories (fst (fst (SearchAll engine1 ''auth'' None 2 store0)))) = [3]
   \<and> map s_ID (Sessions (fst (fst (SearchAll engine1 ''auth'' None 2 store0)))) = [1]
   \<and> map f_ID (Files (fst (fst (SearchAll engine1 ''auth'' None 2 store0)))) = [1]"
proof -
  have ok: "rejects engine1 SelectProjects = None"
    by (simp add: engine1_def engine0_def)
  have two: "(if (2::int) \<le> 0 then 10 else 2) = (2::int)"
    by simp
  show ?thesis
    using SearchAll_skips_failed_search [of engine1 2 store0 "''auth''" None "projects database0 ! 0"]
      ok SearchAll_example_failed_search SearchMemories_example_failed
    unfolding Let_def two
    by simp
qed

subsection \<open>Usage records of the tool handlers\<close>

lemma recordUsage_appends_one:
  assumes "rejects e (InsertUsage projectID toolName query n (tokenEstimate toolName n)) = None"
    and "projectID \<in> set (map p_ID (projects (db (store srv))))"
  shows "usage_stats (db (store (recordUsage e toolName projectID query n srv))) =
           usage_stats (db (store srv)) @
             [\<lparr>u_ID = usage_stats_seq (db (store srv)) + 1, u_ProjectID = projectID,
               u_ToolName = toolName, u_QueryText = query, u_ResultsCount = n,
               u_TokensEstimated = tokenEstimate toolName n, u_CreatedAt = now e\<rparr>]"
  using assms by (simp add: recordUsage_def RecordUsage_def pool_send_def Let_def)

lemma recordUsage_soft_fail:
  assumes "rejects e (InsertUsage projectID toolName query n (tokenEstimate toolName n)) \<noteq> None
           \<or> projectID \<notin> set (map p_ID (projects (db (store srv))))"
  shows "usage_stats (db (store (recordUsage e toolName projectID query n srv))) =
           usage_stats (db (store srv))"
  using assms by (auto simp: recordUsage_def RecordUsage_def pool_send_def Let_def split: option.splits)

lemma handleMemoryGet_missing_records_nothing:
  assumes "fst (GetMemory e (stringArg req ''project_id'') (stringArg req ''topic'')
                  (stringArg req ''key'') (store srv)) = (None, None)"
  shows "fst (handleMemoryGet e MarshalIndent req srv) = NewToolResultText ''not found''
         \<and> usage_stats (db (store (snd (handleMemoryGet e MarshalIndent req srv)))) =
             usage_stats (db (store srv))"
proof -
  obtain st where g: "GetMemory e (stringArg req ''project_id'') (stringArg req ''topic'')
                  (stringArg req ''key'') (store srv) = ((None, None), st)"
    using assms by (metis prod.collapse)
  have "db st = db (store srv)"
    using GetMemory_missing [of e "stringArg req ''project_id''" "stringArg req ''topic''"
        "stringArg req ''key''" "store srv"] g by simp
  then show ?thesis
    by (simp add: handleMemoryGet_def Let_def g)
qed

text \<open>
  C4, at the call \<open>memory_get\<close> for a memory that project \<open>t1\<close> does not have, on a
  healthy store: the handler answers \<open>not found\<close>, a result that is not an error, and has
  sent the selection only; no usage record is written. The call \<open>memory_delete\<close> with the
  same arguments, which deletes nothing, writes its usage record.
\<close>

theorem memory_get_of_missing_item_records_no_usage:
  "fst (handleMemoryGet engine0 m_Value request0 server0) = NewToolResultText ''not found''
   \<and> usage_stats (db (store (snd (handleMemoryGet engine0 m_Value request0 server0)))) = []
   \<and> issued (store (snd (handleMemoryGet engine0 m_Value request0 server0))) =
       [SelectMemory ''t1'' ''arch'' ''cache'']
   \<and> fst (handleMemoryDelete engine0 request0 server0) = NewToolResultText ''Deleted: arch/cache''
   \<and> map u_ToolName (usage_stats (db (store (snd (handleMemoryDelete engine0 request0 server0))))) =
       [''memory_delete'']
   \<and> issued (store (snd (handleMemoryDelete engine0 request0 server0))) =
       [DeleteMemoryWhere ''t1'' ''arch'' ''cache'',
        InsertUsage ''t1'' ''memory_delete'' ''arch/cache'' 0 100]"
  by (simp add: handleMemoryGet_def handleMemoryDelete_def stringArg_def request0_def server0_def
        store0_def database0_def engine0_def GetMemory_def DeleteMemory_def pool_send_def
        memory_key_def recordUsage_def RecordUsage_def tokenEstimate_def Let_def)

text \<open>
  The usage record is lost in one more way. The column \<open>project_id\<close> of \<open>usage_stats\<close>
  references \<open>projects(id)\<close>, and \<open>project_list\<close> records its usage under the empty
  project identifier, which \<open>project_register\<close> refuses to create: the insert violates the
  foreign key, \<open>recordUsage\<close> logs the error, and no record is written.
\<close>

lemma project_list_records_no_usage:
  "fst (handleProjectList engine0 (concat \<circ> map p_ID) Map.empty server0) = NewToolResultText ''t1t2''
   \<and> usage_stats (db (store (snd (handleProjectList engine0 (concat \<circ> map p_ID) Map.empty server0)))) = []
   \<and> issued (store (snd (handleProjectList engine0 (concat \<circ> map p_ID) Map.empty server0))) =
       [SelectProjects, InsertUsage [] ''project_list'' [] 2 100]"
  by (simp add: handleProjectList_def ListProjects_def server0_def store0_def database0_def
        engine0_def pool_send_def recordUsage_def RecordUsage_def tokenEstimate_def Let_def)

end
